theory Spec2Isabelle
  imports Main "HOL-Library.Sublist" "HOL-Library.Multiset"
begin

section \<open>Python strings\<close>

text \<open>
  A Python \<open>str\<close> is a sequence of Unicode code points, so it is modelled as a list of
  natural numbers. \<open>py\<close> turns an ASCII literal into that form.
\<close>

type_synonym pystr = "nat list"

definition py :: "string \<Rightarrow> pystr" where
  "py cs = map of_char cs"

text \<open>
  \<open>str.isdigit\<close>: on ASCII exactly the characters \<open>0\<close> to \<open>9\<close>. Beyond ASCII the answer
  comes from the Unicode character database of the Python runtime (superscripts,
  Arabic-Indic digits, ...), which is not part of the repository: it is the parameter
  \<open>ucd\<close>.
\<close>

definition str_isdigit :: "(nat \<Rightarrow> bool) \<Rightarrow> nat \<Rightarrow> bool" where
  "str_isdigit ucd c = (if c < 128 then 48 \<le> c \<and> c \<le> 57 else ucd c)"

text \<open>\<open>str.isspace\<close> on one code point: the white space characters of Unicode.\<close>

definition str_isspace :: "nat \<Rightarrow> bool" where
  "str_isspace c =
     ((9 \<le> c \<and> c \<le> 13) \<or> (28 \<le> c \<and> c \<le> 32) \<or> c = 133 \<or> c = 160 \<or> c = 5760
      \<or> (8192 \<le> c \<and> c \<le> 8202) \<or> c = 8232 \<or> c = 8233 \<or> c = 8239 \<or> c = 8287
      \<or> c = 12288)"

text \<open>\<open>s.strip()\<close>: white space removed at both ends.\<close>

definition str_strip :: "pystr \<Rightarrow> pystr" where
  "str_strip s = rev (dropWhile str_isspace (rev (dropWhile str_isspace s)))"

text \<open>\<open>s.startswith(p)\<close>.\<close>

definition startswith :: "pystr \<Rightarrow> pystr \<Rightarrow> bool" where
  "startswith s p = prefix p s"

section \<open>Relay client: \<open>send_zapi_message\<close>\<close>

text \<open>The JSON body posted to the gateway: \<open>{"phone": clean_phone, "message": message}\<close>.\<close>

record zapi_payload =
  zapi_phone :: pystr
  zapi_message :: pystr

text \<open>Exceptions of the program, as values.\<close>

datatype exn =
    HTTPStatusError nat
  | HTTPException nat pystr
  | RequestError
  | JSONDecodeError
  | ValidationError
  | IntegrityError
  | ProgrammingError
  | PendingRollbackError
  | ValueError

text \<open>
  What an HTTP call returns when it does not raise: the status code, and whether the body
  is JSON at all.
\<close>

record 'a http_response =
  status_code :: nat
  body :: "'a option"

definition response_json :: "'a http_response \<Rightarrow> exn + 'a" where
  "response_json r = (case body r of None \<Rightarrow> Inl JSONDecodeError | Some j \<Rightarrow> Inr j)"

text \<open>
  Lines 116 to 118 of \<open>main.py\<close>: keep the characters for which \<open>str.isdigit\<close> holds, then
  put \<open>55\<close> in front of a string of at most 11 characters that does not start with it.
\<close>

definition clean_phone :: "(nat \<Rightarrow> bool) \<Rightarrow> pystr \<Rightarrow> pystr" where
  "clean_phone ucd ph =
     (let cleaned = filter (str_isdigit ucd) ph
      in if length cleaned \<le> 11 \<and> \<not> startswith cleaned (py ''55'')
         then py ''55'' @ cleaned else cleaned)"

text \<open>
  \<open>send_zapi_message\<close> returns nothing to its caller; its effect is the list of bodies it
  posts to the gateway. An empty message posts nothing. \<open>post\<close> is the gateway's answer to
  the request (an exception of \<open>client.post\<close>, or the response that
  \<open>raise_for_status\<close> and the logged \<open>response.json()\<close> inspect); both handlers only log,
  so the function returns normally in every case.
\<close>

definition raise_for_status :: "'a http_response \<Rightarrow> exn + unit" where
  "raise_for_status r =
     (if 200 \<le> status_code r \<and> status_code r < 300 then Inr ()
      else Inl (HTTPStatusError (status_code r)))"

definition send_zapi_message ::
  "(nat \<Rightarrow> bool) \<Rightarrow> (zapi_payload \<Rightarrow> exn + unit http_response) \<Rightarrow> pystr \<Rightarrow> pystr
     \<Rightarrow> zapi_payload list" where
  "send_zapi_message ucd post ph msg =
     (if msg = [] then []
      else
        let payload = \<lparr>zapi_phone = clean_phone ucd ph, zapi_message = msg\<rparr>
        in (case post payload of
              Inl e \<Rightarrow> [payload]
            | Inr response \<Rightarrow>
                (case raise_for_status response of
                   Inl e \<Rightarrow> [payload]
                 | Inr u \<Rightarrow>
                     (case response_json response of
                        Inl e \<Rightarrow> [payload]
                      | Inr j \<Rightarrow> [payload]))))"

text \<open>
  The normalisation as the specification words it: strip every non-digit character, then
  prepend the country code when the digit string has 11 or fewer digits and does not
  already start with it.
\<close>

fun strip_non_digits :: "(nat \<Rightarrow> bool) \<Rightarrow> pystr \<Rightarrow> pystr" where
  "strip_non_digits ucd [] = []"
| "strip_non_digits ucd (c # cs) =
     (if str_isdigit ucd c then c # strip_non_digits ucd cs else strip_non_digits ucd cs)"

fun has_country_code :: "pystr \<Rightarrow> bool" where
  "has_country_code (a # b # cs) = (a = 53 \<and> b = 53)"
| "has_country_code cs = False"

definition normalize_phone :: "(nat \<Rightarrow> bool) \<Rightarrow> pystr \<Rightarrow> pystr" where
  "normalize_phone ucd ph =
     (let d = strip_non_digits ucd ph
      in if length d \<le> 11 \<and> \<not> has_country_code d then 53 # 53 # d else d)"

section \<open>Conversation store: \<open>models.py\<close> and the queries of \<open>main.py\<close>\<close>

text \<open>
  Primary keys are drawn by \<open>uuid.uuid4\<close> and timestamps are assigned by the database
  server's \<open>now()\<close>: both come from outside the program, so every operation that inserts
  or updates a row takes the drawn identifier and the server time as arguments.
\<close>

type_synonym uuid = nat
type_synonym datetime = nat

record User =
  User_id :: uuid
  phone_number :: pystr
  name :: "pystr option"
  created_at :: datetime
  updated_at :: datetime

datatype SenderTypeEnum = USER | AI

record ChatHistory =
  ChatHistory_id :: uuid
  user_id :: uuid
  message :: pystr
  sender_type :: SenderTypeEnum
  timestamp :: datetime

text \<open>What a session sees: the rows of the two tables, in insertion order.\<close>

record session =
  users :: "User list"
  chat_history :: "ChatHistory list"

text \<open>Truth value of an \<open>Optional[str]\<close>: \<open>None\<close> and the empty string are false.\<close>

definition truthy :: "pystr option \<Rightarrow> bool" where
  "truthy x = (case x of None \<Rightarrow> False | Some t \<Rightarrow> t \<noteq> [])"

text \<open>
  \<open>get_or_create_user\<close>. The \<open>SELECT\<close> takes the first row with the phone number. A found
  user whose name differs gets the new name (and \<open>onupdate\<close> sets \<open>updated_at\<close>); an unknown
  phone inserts a row, and the flush raises when the drawn primary key is already taken
  (the unique constraint on \<open>phone_number\<close> cannot fire here: the row is inserted only
  when the \<open>SELECT\<close> found none). The result is the refreshed row and the session after
  the flush.
\<close>

definition get_or_create_user ::
  "session \<Rightarrow> pystr \<Rightarrow> pystr option \<Rightarrow> uuid \<Rightarrow> datetime \<Rightarrow> exn + (User \<times> session)" where
  "get_or_create_user s ph nm uuid4 now =
     (case find (\<lambda>u. phone_number u = ph) (users s) of
        Some user \<Rightarrow>
          if truthy nm \<and> (\<not> truthy (name user) \<or> name user \<noteq> nm) then
            Inr (user\<lparr>name := nm, updated_at := now\<rparr>,
                 s\<lparr>users := map (\<lambda>u. if User_id u = User_id user
                                      then u\<lparr>name := nm, updated_at := now\<rparr> else u) (users s)\<rparr>)
          else Inr (user, s)
      | None \<Rightarrow>
          let new_user = \<lparr>User_id = uuid4, phone_number = ph, name = nm,
                          created_at = now, updated_at = now\<rparr>
          in if uuid4 \<in> set (map User_id (users s)) then Inl IntegrityError
             else Inr (new_user, s\<lparr>users := users s @ [new_user]\<rparr>))"

text \<open>
  \<open>save_chat_message\<close>: one \<open>INSERT\<close>. The flush raises when the primary key is taken or
  when the foreign key \<open>user_id\<close> names no row of \<open>users\<close>.
\<close>

definition save_chat_message ::
  "session \<Rightarrow> uuid \<Rightarrow> pystr \<Rightarrow> SenderTypeEnum \<Rightarrow> uuid \<Rightarrow> datetime \<Rightarrow> exn + session" where
  "save_chat_message s uid msg sender uuid4 now =
     (let chat_entry = \<lparr>ChatHistory_id = uuid4, user_id = uid, message = msg,
                         sender_type = sender, timestamp = now\<rparr>
      in if uuid4 \<in> set (map ChatHistory_id (chat_history s)) \<or> uid \<notin> set (map User_id (users s))
         then Inl IntegrityError
         else Inr (s\<lparr>chat_history := chat_history s @ [chat_entry]\<rparr>))"

text \<open>
  \<open>ORDER BY timestamp DESC\<close> is done by the database. \<open>order_by\<close> stands for its sort: any
  function that permutes the rows into non-increasing timestamps. The order of rows with
  equal timestamps is the database's choice.
\<close>

definition orders_by_desc :: "(ChatHistory list \<Rightarrow> ChatHistory list) \<Rightarrow> bool" where
  "orders_by_desc order_by =
     (\<forall>rows. mset (order_by rows) = mset rows
           \<and> sorted_wrt (\<lambda>a b. timestamp b \<le> timestamp a) (order_by rows))"

text \<open>Two such sorts: among equal timestamps, the row inserted last first, or first first.\<close>

definition ties_newest_first :: "ChatHistory list \<Rightarrow> ChatHistory list" where
  "ties_newest_first rows = rev (sort_key timestamp rows)"

definition ties_oldest_first :: "ChatHistory list \<Rightarrow> ChatHistory list" where
  "ties_oldest_first rows = rev (sort_key timestamp (rev rows))"

text \<open>
  \<open>get_chat_history\<close>: filter on the user, order by timestamp descending, \<open>LIMIT\<close>, and
  \<open>messages[::-1]\<close>. The limit is a Python \<open>int\<close>; the database rejects a negative one.
\<close>

definition get_chat_history ::
  "(ChatHistory list \<Rightarrow> ChatHistory list) \<Rightarrow> session \<Rightarrow> uuid \<Rightarrow> int \<Rightarrow> exn + ChatHistory list" where
  "get_chat_history order_by s uid limit =
     (if limit < 0 then Inl ProgrammingError
      else
        let messages = take (nat limit)
                         (order_by (filter (\<lambda>m. user_id m = uid) (chat_history s)))
        in Inr (rev messages))"

section \<open>Completion client: \<open>call_openrouter\<close>\<close>

record OpenRouterMessage =
  role :: pystr
  content :: pystr

record OpenRouterRequest =
  model :: pystr
  messages :: "OpenRouterMessage list"
  max_tokens :: int

record OpenRouterChoice =
  choice_message :: OpenRouterMessage

record OpenRouterResponse =
  choices :: "OpenRouterChoice list"

text \<open>
  The JSON of a completion response, as far as \<open>model_validate\<close> looks at it: either it has
  the shape of \<open>OpenRouterResponse\<close> or validation raises.
\<close>

datatype completion_json = Malformed | WellFormed "OpenRouterChoice list"

definition model_validate_response :: "completion_json \<Rightarrow> exn + OpenRouterResponse" where
  "model_validate_response data =
     (case data of Malformed \<Rightarrow> Inl ValidationError | WellFormed cs \<Rightarrow> Inr \<lparr>choices = cs\<rparr>)"

text \<open>The values of \<open>config.py\<close> that the pipeline reads.\<close>

record settings =
  OPENROUTER_MODEL :: pystr
  system_prompt :: pystr
  CONTEXT_MESSAGE_COUNT :: int

text \<open>The body of the \<open>try\<close> of \<open>call_openrouter\<close>, lines 90 to 102.\<close>

definition call_openrouter_try ::
  "(OpenRouterRequest \<Rightarrow> exn + completion_json http_response) \<Rightarrow> OpenRouterRequest
     \<Rightarrow> exn + pystr option" where
  "call_openrouter_try post payload =
     (case post payload of
        Inl e \<Rightarrow> Inl e
      | Inr response \<Rightarrow>
          (case raise_for_status response of
             Inl e \<Rightarrow> Inl e
           | Inr u \<Rightarrow>
               (case response_json response of
                  Inl e \<Rightarrow> Inl e
                | Inr data \<Rightarrow>
                    (case model_validate_response data of
                       Inl e \<Rightarrow> Inl e
                     | Inr parsed_response \<Rightarrow>
                         (case choices parsed_response of
                            [] \<Rightarrow> Inr None
                          | c # cs \<Rightarrow> Inr (Some (str_strip (content (choice_message c)))))))))"

text \<open>The request of lines 77 to 80: the system prompt goes first.\<close>

definition openrouter_payload :: "settings \<Rightarrow> OpenRouterMessage list \<Rightarrow> OpenRouterRequest" where
  "openrouter_payload cfg history =
     \<lparr>model = OPENROUTER_MODEL cfg,
      messages = \<lparr>role = py ''system'', content = system_prompt cfg\<rparr> # history,
      max_tokens = 1000\<rparr>"

text \<open>
  \<open>call_openrouter\<close>: both \<open>except\<close> clauses log and return \<open>None\<close>, so every exception
  of the \<open>try\<close> ends there.
\<close>

definition call_openrouter ::
  "settings \<Rightarrow> (OpenRouterRequest \<Rightarrow> exn + completion_json http_response)
     \<Rightarrow> OpenRouterMessage list \<Rightarrow> pystr option" where
  "call_openrouter cfg post history =
     (let payload = openrouter_payload cfg history
      in (case call_openrouter_try post payload of
            Inl (HTTPStatusError code) \<Rightarrow> None
          | Inl e \<Rightarrow> None
          | Inr r \<Rightarrow> r))"

section \<open>Pipeline: \<open>process_incoming_message\<close>\<close>

text \<open>
  Everything one run takes from outside the program: the Unicode table, the database's
  sort, the answers of the two HTTP services, and for each of the three possible writes
  the drawn primary key and the server time.
\<close>

record world =
  unicode_digit :: "nat \<Rightarrow> bool"
  db_order_by :: "ChatHistory list \<Rightarrow> ChatHistory list"
  openrouter_post :: "OpenRouterRequest \<Rightarrow> exn + completion_json http_response"
  zapi_post :: "zapi_payload \<Rightarrow> exn + unit http_response"
  user_uuid4 :: uuid
  user_now :: datetime
  inbound_uuid4 :: uuid
  inbound_now :: datetime
  reply_uuid4 :: uuid
  reply_now :: datetime

definition fallback_apology :: pystr where
  "fallback_apology =
     py ''Desculpe, n'' @ [227] @ py ''o consegui processar sua solicita'' @ [231, 227]
     @ py ''o no momento. '' @ [129402] @ py '' Tente novamente mais tarde.''"

definition internal_error_text :: pystr where
  "internal_error_text = py ''Ocorreu um erro interno. Por favor, tente novamente mais tarde.''"

definition history_for_ai :: "ChatHistory list \<Rightarrow> OpenRouterMessage list" where
  "history_for_ai history_db =
     map (\<lambda>msg. \<lparr>role = (if sender_type msg = AI then py ''assistant'' else py ''user''),
                  content = message msg\<rparr>) history_db"

text \<open>
  The body of the outer \<open>try\<close>, lines 141 to 170: the exception raised, if any, the
  session as the raise or the end leaves it, and the bodies posted to the gateway.
\<close>

definition process_try ::
  "settings \<Rightarrow> world \<Rightarrow> session \<Rightarrow> pystr \<Rightarrow> pystr option \<Rightarrow> pystr
     \<Rightarrow> exn option \<times> session \<times> zapi_payload list" where
  "process_try cfg w s ph nm user_message =
     (case get_or_create_user s ph nm (user_uuid4 w) (user_now w) of
        Inl e \<Rightarrow> (Some e, s, [])
      | Inr (user, s1) \<Rightarrow>
          (case save_chat_message s1 (User_id user) user_message USER
                   (inbound_uuid4 w) (inbound_now w) of
             Inl e \<Rightarrow> (Some e, s1, [])
           | Inr s2 \<Rightarrow>
               (case get_chat_history (db_order_by w) s2 (User_id user) (CONTEXT_MESSAGE_COUNT cfg) of
                  Inl e \<Rightarrow> (Some e, s2, [])
                | Inr history_db \<Rightarrow>
                    (case call_openrouter cfg (openrouter_post w) (history_for_ai history_db) of
                       None \<Rightarrow>
                         (None, s2, send_zapi_message (unicode_digit w) (zapi_post w) ph fallback_apology)
                     | Some ai_response \<Rightarrow>
                         if ai_response \<noteq> [] then
                           (case save_chat_message s2 (User_id user) ai_response AI
                                    (reply_uuid4 w) (reply_now w) of
                              Inl e \<Rightarrow> (Some e, s2, [])
                            | Inr s3 \<Rightarrow>
                                (None, s3,
                                 send_zapi_message (unicode_digit w) (zapi_post w) ph ai_response))
                         else
                           (None, s2,
                            send_zapi_message (unicode_digit w) (zapi_post w) ph fallback_apology)))))"

text \<open>
  \<open>process_incoming_message\<close>: the \<open>except Exception\<close> clause sends the generic error text
  and returns; nothing is raised to the caller.
\<close>

definition process_incoming_message ::
  "settings \<Rightarrow> world \<Rightarrow> session \<Rightarrow> pystr \<Rightarrow> pystr option \<Rightarrow> pystr
     \<Rightarrow> session \<times> zapi_payload list" where
  "process_incoming_message cfg w s ph nm user_message =
     (case process_try cfg w s ph nm user_message of
        (None, s', sent) \<Rightarrow> (s', sent)
      | (Some e, s', sent) \<Rightarrow>
          (s', sent @ send_zapi_message (unicode_digit w) (zapi_post w) ph internal_error_text))"

section \<open>The HTTP client and the transaction of a run\<close>

text \<open>
  \<open>call_openrouter\<close> and \<open>send_zapi_message\<close> above start where the HTTP client exists.
  Both functions construct it outside their \<open>try\<close> (\<open>async with httpx.AsyncClient(...)\<close>,
  lines 88 and 125), so an exception of the constructor (a proxy or certificate setting
  of the process that \<open>httpx\<close> rejects) reaches their caller. \<open>client\<close> is what the
  constructor raises in the process at hand, if anything. \<open>send_zapi_message\<close> returns on
  an empty message before it gets there.
\<close>

definition call_openrouter_client ::
  "exn option \<Rightarrow> settings \<Rightarrow> (OpenRouterRequest \<Rightarrow> exn + completion_json http_response)
     \<Rightarrow> OpenRouterMessage list \<Rightarrow> exn + pystr option" where
  "call_openrouter_client client cfg post history =
     (case client of
        Some e \<Rightarrow> Inl e
      | None \<Rightarrow> Inr (call_openrouter cfg post history))"

definition send_zapi_message_client ::
  "exn option \<Rightarrow> (nat \<Rightarrow> bool) \<Rightarrow> (zapi_payload \<Rightarrow> exn + unit http_response) \<Rightarrow> pystr \<Rightarrow> pystr
     \<Rightarrow> exn + zapi_payload list" where
  "send_zapi_message_client client ucd post ph msg =
     (if msg = [] then Inr []
      else (case client of
              Some e \<Rightarrow> Inl e
            | None \<Rightarrow> Inr (send_zapi_message ucd post ph msg)))"

text \<open>
  What a failure leaves of the session's transaction. A failed flush (the \<open>INSERT\<close> of
  \<open>get_or_create_user\<close> or of \<open>save_chat_message\<close>) makes SQLAlchemy roll the transaction
  back at once and leaves the session inactive: a later \<open>commit\<close> raises
  \<open>PendingRollbackError\<close>. A failed statement (the \<open>SELECT\<close> of \<open>get_chat_history\<close>) makes
  the database server abort the transaction: a later \<open>commit\<close> returns normally and
  persists nothing. An exception that does not come from the database leaves the
  transaction active, and a \<open>commit\<close> persists what the session wrote.
\<close>

datatype transaction = Active | Inactive | Aborted

text \<open>
  The body of the outer \<open>try\<close> again, lines 141 to 170, now with the exceptions of the
  two HTTP functions and with the state in which each failure leaves the transaction.
\<close>

definition process_try_client ::
  "exn option \<Rightarrow> settings \<Rightarrow> world \<Rightarrow> session \<Rightarrow> pystr \<Rightarrow> pystr option \<Rightarrow> pystr
     \<Rightarrow> exn option \<times> transaction \<times> session \<times> zapi_payload list" where
  "process_try_client client cfg w s ph nm user_message =
     (case get_or_create_user s ph nm (user_uuid4 w) (user_now w) of
        Inl e \<Rightarrow> (Some e, Inactive, s, [])
      | Inr (user, s1) \<Rightarrow>
          (case save_chat_message s1 (User_id user) user_message USER
                   (inbound_uuid4 w) (inbound_now w) of
             Inl e \<Rightarrow> (Some e, Inactive, s1, [])
           | Inr s2 \<Rightarrow>
               (case get_chat_history (db_order_by w) s2 (User_id user) (CONTEXT_MESSAGE_COUNT cfg) of
                  Inl e \<Rightarrow> (Some e, Aborted, s2, [])
                | Inr history_db \<Rightarrow>
                    (case call_openrouter_client client cfg (openrouter_post w)
                            (history_for_ai history_db) of
                       Inl e \<Rightarrow> (Some e, Active, s2, [])
                     | Inr None \<Rightarrow>
                         (case send_zapi_message_client client (unicode_digit w) (zapi_post w)
                                 ph fallback_apology of
                            Inl e \<Rightarrow> (Some e, Active, s2, [])
                          | Inr sent \<Rightarrow> (None, Active, s2, sent))
                     | Inr (Some ai_response) \<Rightarrow>
                         if ai_response \<noteq> [] then
                           (case save_chat_message s2 (User_id user) ai_response AI
                                    (reply_uuid4 w) (reply_now w) of
                              Inl e \<Rightarrow> (Some e, Inactive, s2, [])
                            | Inr s3 \<Rightarrow>
                                (case send_zapi_message_client client (unicode_digit w)
                                        (zapi_post w) ph ai_response of
                                   Inl e \<Rightarrow> (Some e, Active, s3, [])
                                 | Inr sent \<Rightarrow> (None, Active, s3, sent)))
                         else
                           (case send_zapi_message_client client (unicode_digit w)
                                   (zapi_post w) ph fallback_apology of
                              Inl e \<Rightarrow> (Some e, Active, s2, [])
                            | Inr sent \<Rightarrow> (None, Active, s2, sent))))))"

text \<open>
  \<open>process_incoming_message\<close> with both handlers, lines 172 to 178: the outer one catches
  every exception of the body and sends the generic error text, the inner one catches
  what that send raises. The function returns normally in every case; it calls neither
  \<open>commit\<close> nor \<open>rollback\<close>.
\<close>

definition process_incoming_message_client ::
  "exn option \<Rightarrow> settings \<Rightarrow> world \<Rightarrow> session \<Rightarrow> pystr \<Rightarrow> pystr option \<Rightarrow> pystr
     \<Rightarrow> transaction \<times> session \<times> zapi_payload list" where
  "process_incoming_message_client client cfg w s ph nm user_message =
     (case process_try_client client cfg w s ph nm user_message of
        (None, tx, s', sent) \<Rightarrow> (tx, s', sent)
      | (Some e, tx, s', sent) \<Rightarrow>
          (case send_zapi_message_client client (unicode_digit w) (zapi_post w) ph
                  internal_error_text of
             Inl send_err \<Rightarrow> (tx, s', sent)
           | Inr sent' \<Rightarrow> (tx, s', sent @ sent')))"

section \<open>Session scope: \<open>get_db\<close>\<close>

text \<open>
  \<open>get_db\<close> hands a session to the code between \<open>yield\<close> and the end of the request (the
  session factory is taken to exist, that is, \<open>DATABASE_URL\<close> is set). That code ends by
  raising or by returning, with the transaction in one of its three states and the
  session holding what it has written.

  When the code raises, the \<open>except\<close> clause runs \<open>session.rollback()\<close> and raises the
  exception again: the database is as before. When the code returns, \<open>session.commit()\<close>
  runs inside the same \<open>try\<close>: on an active transaction it persists what the session
  holds; on an inactive session it raises \<open>PendingRollbackError\<close>, so the \<open>except\<close> clause
  rolls back and raises that; on a transaction the server has aborted it returns and the
  database is as before. A commit that fails for another reason (a lost connection) is
  not modelled.
\<close>

datatype db_exit = Committed | RolledBack exn

definition get_db ::
  "(session \<Rightarrow> exn option \<times> transaction \<times> session \<times> 'a) \<Rightarrow> session \<Rightarrow> db_exit \<times> session \<times> 'a" where
  "get_db use db =
     (case use db of
        (Some e, tx, s, out) \<Rightarrow> (RolledBack e, db, out)
      | (None, Active, s, out) \<Rightarrow> (Committed, s, out)
      | (None, Inactive, s, out) \<Rightarrow> (RolledBack PendingRollbackError, db, out)
      | (None, Aborted, s, out) \<Rightarrow> (Committed, db, out))"

section \<open>Webhook: \<open>handle_zapi_webhook\<close>\<close>

record ZapiMessagePayload =
  text_field :: "pystr option"

record ZapiWebhookPayload =
  phone :: pystr
  senderName :: "pystr option"
  message_field :: "ZapiMessagePayload option"
  isGroupMessage :: "bool option"

text \<open>
  The request body: not JSON at all, or JSON that \<open>ZapiWebhookPayload.model_validate\<close>
  rejects, or JSON that it accepts, with the validated value.
\<close>

datatype request_body = NotJSON | Rejected | Accepted ZapiWebhookPayload

text \<open>The answer of the endpoint: the HTTP status and the value of \<open>"status"\<close>.\<close>

record http_answer =
  http_status :: nat
  status_field :: pystr

text \<open>
  \<open>handle_zapi_webhook\<close>: the \<open>HTTPException\<close> of line 194, or the answer together with the
  background task added, if any (phone, name and stripped text).
\<close>

definition handle_zapi_webhook ::
  "request_body \<Rightarrow> exn + (http_answer \<times> (pystr \<times> pystr option \<times> pystr) option)" where
  "handle_zapi_webhook request =
     (case request of
        NotJSON \<Rightarrow> Inl (HTTPException 400 (py ''Payload inv'' @ [225] @ py ''lido.''))
      | Rejected \<Rightarrow> Inr (\<lparr>http_status = 200, status_field = py ''processing_error''\<rparr>, None)
      | Accepted webhook_data \<Rightarrow>
          if isGroupMessage webhook_data = Some True then
            Inr (\<lparr>http_status = 200, status_field = py ''ignored_group_message''\<rparr>, None)
          else
            (case message_field webhook_data of
               None \<Rightarrow> Inr (\<lparr>http_status = 200, status_field = py ''ignored_no_text''\<rparr>, None)
             | Some m \<Rightarrow>
                 (case text_field m of
                    None \<Rightarrow> Inr (\<lparr>http_status = 200, status_field = py ''ignored_no_text''\<rparr>, None)
                  | Some t \<Rightarrow>
                      if t = [] then
                        Inr (\<lparr>http_status = 200, status_field = py ''ignored_no_text''\<rparr>, None)
                      else
                        let user_message = str_strip t
                        in if user_message = [] then
                             Inr (\<lparr>http_status = 200, status_field = py ''ignored_empty_text''\<rparr>,
                                  None)
                           else
                             Inr (\<lparr>http_status = 200, status_field = py ''received''\<rparr>,
                                  Some (phone webhook_data, senderName webhook_data,
                                        user_message)))))"

text \<open>
  One request to \<open>/webhook/zapi\<close>, with the session that \<open>Depends(db.get_db)\<close> opens for it:
  the handler runs, the background task it added runs on the same session, and \<open>get_db\<close>
  closes the session, as the comments of lines 166 to 168 and 179 describe it. \<open>client\<close>
  is what constructing the HTTP client raises in this process, if anything.
\<close>

definition webhook_request ::
  "exn option \<Rightarrow> settings \<Rightarrow> world \<Rightarrow> request_body \<Rightarrow> session
     \<Rightarrow> db_exit \<times> session \<times> (http_answer option \<times> zapi_payload list)" where
  "webhook_request client cfg w request db =
     get_db (\<lambda>s.
       (case handle_zapi_webhook request of
          Inl e \<Rightarrow> (Some e, Active, s, (None, []))
        | Inr (answer, None) \<Rightarrow> (None, Active, s, (Some answer, []))
        | Inr (answer, Some (ph, nm, user_message)) \<Rightarrow>
            (case process_incoming_message_client client cfg w s ph nm user_message of
               (tx, s', sent) \<Rightarrow> (None, tx, s', (Some answer, sent))))) db"

section \<open>Example data\<close>

text \<open>A database with one user and one message of hers.\<close>

definition db_one_user :: session where
  "db_one_user =
     \<lparr>users = [\<lparr>User_id = 1, phone_number = py ''5511987654321'', name = Some (py ''Ana''),
                 created_at = 3, updated_at = 3\<rparr>],
      chat_history = [\<lparr>ChatHistory_id = 10, user_id = 1, message = py ''Oi'',
                        sender_type = USER, timestamp = 5\<rparr>]\<rparr>"

text \<open>
  A database with two users. The first two messages of user 1 carry the same timestamp,
  as two rows written at the same server time do.
\<close>

definition db_history :: session where
  "db_history =
     \<lparr>users = [\<lparr>User_id = 1, phone_number = py ''5511987654321'', name = Some (py ''Ana''),
                 created_at = 3, updated_at = 3\<rparr>,
               \<lparr>User_id = 2, phone_number = py ''5521999990000'', name = None,
                 created_at = 6, updated_at = 6\<rparr>],
      chat_history = [\<lparr>ChatHistory_id = 10, user_id = 1, message = py ''Oi'',
                        sender_type = USER, timestamp = 5\<rparr>,
                      \<lparr>ChatHistory_id = 11, user_id = 1, message = py ''Ola, Ana'',
                        sender_type = AI, timestamp = 5\<rparr>,
                      \<lparr>ChatHistory_id = 12, user_id = 2, message = py ''Bom dia'',
                        sender_type = USER, timestamp = 6\<rparr>,
                      \<lparr>ChatHistory_id = 13, user_id = 1, message = py ''Tudo bem?'',
                        sender_type = USER, timestamp = 9\<rparr>]\<rparr>"

text \<open>The settings with the defaults of \<open>config.py\<close>.\<close>

definition default_settings :: settings where
  "default_settings =
     \<lparr>OPENROUTER_MODEL = py ''google/gemini-flash-1.5'',
      system_prompt = py ''Voc'' @ [234] @ py '' '' @ [233] @ py '' uma assistente virtual.'',
      CONTEXT_MESSAGE_COUNT = 6\<rparr>"

text \<open>
  Answers of the completion service: unreachable, an error status, a response without
  choices, and a response whose first choice is the given text.
\<close>

definition openrouter_down :: "OpenRouterRequest \<Rightarrow> exn + completion_json http_response" where
  "openrouter_down payload = Inl RequestError"

definition openrouter_busy :: "OpenRouterRequest \<Rightarrow> exn + completion_json http_response" where
  "openrouter_busy payload = Inr \<lparr>status_code = 503, body = None\<rparr>"

definition openrouter_no_choices ::
  "OpenRouterRequest \<Rightarrow> exn + completion_json http_response" where
  "openrouter_no_choices payload = Inr \<lparr>status_code = 200, body = Some (WellFormed [])\<rparr>"

definition openrouter_replies ::
  "pystr \<Rightarrow> OpenRouterRequest \<Rightarrow> exn + completion_json http_response" where
  "openrouter_replies t payload =
     Inr \<lparr>status_code = 200,
          body = Some (WellFormed
                   [\<lparr>choice_message = \<lparr>role = py ''assistant'', content = t\<rparr>\<rparr>])\<rparr>"

text \<open>
  A run in which both services answer, no character beyond ASCII counts as a digit, and
  the three writes draw the keys 21, 22 and 23 at server time 100.
\<close>

definition demo_world :: world where
  "demo_world =
     \<lparr>unicode_digit = (\<lambda>c. False),
      db_order_by = ties_newest_first,
      openrouter_post = openrouter_replies (py ''Ola, Ana''),
      zapi_post = (\<lambda>payload. Inr \<lparr>status_code = 200, body = Some ()\<rparr>),
      user_uuid4 = 21, user_now = 100,
      inbound_uuid4 = 22, inbound_now = 100,
      reply_uuid4 = 23, reply_now = 100\<rparr>"

definition empty_db :: session where
  "empty_db = \<lparr>users = [], chat_history = []\<rparr>"

text \<open>
  The first message of a new user: the row of the user, the row of her message, and the
  database once both are written.
\<close>

definition ana :: User where
  "ana = \<lparr>User_id = 21, phone_number = py ''11987654321'', name = Some (py ''Ana''),
           created_at = 100, updated_at = 100\<rparr>"

definition oi :: ChatHistory where
  "oi = \<lparr>ChatHistory_id = 22, user_id = 21, message = py ''Oi'', sender_type = USER,
          timestamp = 100\<rparr>"

definition db_after_inbound :: session where
  "db_after_inbound = \<lparr>users = [ana], chat_history = [oi]\<rparr>"

text \<open>Webhook payloads: a group message, and a direct message \<open>Oi\<close> from the given phone.\<close>

definition group_payload :: ZapiWebhookPayload where
  "group_payload =
     \<lparr>phone = py ''5511987654321'', senderName = Some (py ''Ana''),
      message_field = Some \<lparr>text_field = Some (py ''Oi, pessoal'')\<rparr>,
      isGroupMessage = Some True\<rparr>"

definition direct_payload :: "pystr \<Rightarrow> ZapiWebhookPayload" where
  "direct_payload ph =
     \<lparr>phone = ph, senderName = Some (py ''Ana''),
      message_field = Some \<lparr>text_field = Some (py ''Oi'')\<rparr>,
      isGroupMessage = Some False\<rparr>"

section \<open>Phone normalisation\<close>

lemma py_55: "py ''55'' = [53, 53]"
  by (simp add: py_def)

lemma strip_non_digits_filter: "strip_non_digits ucd cs = filter (str_isdigit ucd) cs"
  by (induction cs) simp_all

lemma has_country_code_startswith: "has_country_code cs = startswith cs (py ''55'')"
  by (cases cs rule: has_country_code.cases) (simp_all add: startswith_def py_55)

lemma clean_phone_normalize: "clean_phone ucd ph = normalize_phone ucd ph"
  by (simp add: clean_phone_def normalize_phone_def strip_non_digits_filter
      has_country_code_startswith py_55 Let_def)

lemma clean_phone_11_digits: "clean_phone ucd (py ''11987654321'') = py ''5511987654321''"
  by (simp add: clean_phone_def py_def str_isdigit_def startswith_def)

lemma clean_phone_prefixed: "clean_phone ucd (py ''5511987654321'') = py ''5511987654321''"
  by (simp add: clean_phone_def py_def str_isdigit_def startswith_def)

lemma clean_phone_punctuated: "clean_phone ucd (py ''(11) 98765-4321'') = py ''5511987654321''"
  by (simp add: clean_phone_def py_def str_isdigit_def startswith_def)

lemma send_zapi_message_posts:
  "send_zapi_message ucd post ph msg =
     (if msg = [] then [] else [\<lparr>zapi_phone = clean_phone ucd ph, zapi_message = msg\<rparr>])"
  by (simp add: send_zapi_message_def Let_def split: sum.splits)

text \<open>
  Claim C4. For every phone string, a non-empty message is posted under the phone number
  obtained by removing all characters that are not digits (in the sense of \<open>str.isdigit\<close>)
  and then, exactly when the digit string has 11 or fewer digits and does not start with
  \<open>55\<close>, prepending \<open>55\<close>: the number the code computes is the one \<open>normalize_phone\<close>
  describes. In particular \<open>11987654321\<close> becomes \<open>5511987654321\<close>, \<open>5511987654321\<close> is
  unchanged, and \<open>(11) 98765-4321\<close> becomes \<open>5511987654321\<close>.
\<close>

theorem send_zapi_message_normalizes_phone:
  "send_zapi_message ucd post ph msg =
     (if msg = [] then [] else [\<lparr>zapi_phone = normalize_phone ucd ph, zapi_message = msg\<rparr>])
   \<and> clean_phone ucd (py ''11987654321'') = py ''5511987654321''
   \<and> clean_phone ucd (py ''5511987654321'') = py ''5511987654321''
   \<and> clean_phone ucd (py ''(11) 98765-4321'') = py ''5511987654321''"
  by (simp only: send_zapi_message_posts clean_phone_normalize [symmetric]
      clean_phone_11_digits clean_phone_prefixed clean_phone_punctuated simp_thms)

section \<open>Resolving and creating users\<close>

lemma find_None_phone:
  "ph \<notin> set (map phone_number us) \<Longrightarrow> find (\<lambda>u. phone_number u = ph) us = None"
  by (auto simp: find_None_iff)

lemma find_Some_phone:
  "find (\<lambda>u. phone_number u = ph) us = Some u \<Longrightarrow> phone_number u = ph \<and> u \<in> set us"
  by (auto simp: find_Some_iff)

lemma filter_phone_map_rename:
  "filter (\<lambda>x. phone_number x = ph)
     (map (\<lambda>u. if User_id u = i then u\<lparr>name := nm, updated_at := t\<rparr> else u) us)
   = map (\<lambda>u. if User_id u = i then u\<lparr>name := nm, updated_at := t\<rparr> else u)
       (filter (\<lambda>x. phone_number x = ph) us)"
  by (induction us) auto

lemma get_or_create_user_new:
  assumes "ph \<notin> set (map phone_number (users s))" and "uuid4 \<notin> set (map User_id (users s))"
  shows "get_or_create_user s ph nm uuid4 now =
           Inr (\<lparr>User_id = uuid4, phone_number = ph, name = nm, created_at = now, updated_at = now\<rparr>,
                s\<lparr>users := users s @ [\<lparr>User_id = uuid4, phone_number = ph, name = nm,
                                         created_at = now, updated_at = now\<rparr>]\<rparr>)"
  using assms by (simp add: get_or_create_user_def find_None_phone Let_def)

lemma get_or_create_user_found:
  assumes "find (\<lambda>u. phone_number u = ph) (users s) = Some user"
  shows "\<exists>u' s'. get_or_create_user s ph nm uuid4 now = Inr (u', s')
           \<and> User_id u' = User_id user \<and> phone_number u' = ph
           \<and> chat_history s' = chat_history s
           \<and> length (users s') = length (users s)
           \<and> map phone_number (users s') = map phone_number (users s)
           \<and> map User_id (users s') = map User_id (users s)"
  using assms find_Some_phone[OF assms]
  by (auto simp: get_or_create_user_def comp_def intro!: map_cong)

lemma count_phone_map:
  "length (filter (\<lambda>x. phone_number x = ph) us) = length (filter (\<lambda>p. p = ph) (map phone_number us))"
  by (induction us) auto

lemma find_appended_phone:
  "ph \<notin> set (map phone_number us) \<Longrightarrow> phone_number u = ph
     \<Longrightarrow> find (\<lambda>x. phone_number x = ph) (us @ [u]) = Some u"
  by (induction us) auto

text \<open>
  Claim C1. For a phone number \<open>P\<close> that no row of \<open>users\<close> carries (and a drawn primary
  key that is not taken), \<open>get_or_create_user\<close> returns normally, appends exactly one row,
  whose phone number is \<open>P\<close>, and afterwards exactly one row carries \<open>P\<close>. Every later
  call with \<open>P\<close>, whatever the name, the drawn key and the time, returns the user with
  the same id and adds no row.
\<close>

theorem get_or_create_user_creates_once:
  assumes unseen: "P \<notin> set (map phone_number (users s))"
      and fresh: "uuid4 \<notin> set (map User_id (users s))"
  shows "\<exists>u s'. get_or_create_user s P nm uuid4 now = Inr (u, s')
           \<and> users s' = users s @ [u] \<and> phone_number u = P
           \<and> length (filter (\<lambda>x. phone_number x = P) (users s')) = 1
           \<and> (\<forall>nm2 uuid2 now2. \<exists>u2 s2.
                 get_or_create_user s' P nm2 uuid2 now2 = Inr (u2, s2)
                 \<and> User_id u2 = User_id u
                 \<and> length (users s2) = length (users s')
                 \<and> length (filter (\<lambda>x. phone_number x = P) (users s2)) = 1)"
proof -
  define u where "u = \<lparr>User_id = uuid4, phone_number = P, name = nm,
                        created_at = now, updated_at = now\<rparr>"
  define s' where "s' = s\<lparr>users := users s @ [u]\<rparr>"
  have created: "get_or_create_user s P nm uuid4 now = Inr (u, s')"
    unfolding u_def s'_def by (rule get_or_create_user_new [OF unseen fresh])
  have rows: "users s' = users s @ [u]" and phone_u: "phone_number u = P"
    by (simp_all add: s'_def u_def)
  have none_before: "filter (\<lambda>x. phone_number x = P) (users s) = []"
    using unseen by (auto simp: filter_empty_conv)
  have one: "length (filter (\<lambda>x. phone_number x = P) (users s')) = 1"
    by (simp add: rows phone_u none_before)
  have found: "find (\<lambda>x. phone_number x = P) (users s') = Some u"
    unfolding rows by (rule find_appended_phone [OF unseen phone_u])
  have again: "\<exists>u2 s2. get_or_create_user s' P nm2 uuid2 now2 = Inr (u2, s2)
                 \<and> User_id u2 = User_id u
                 \<and> length (users s2) = length (users s')
                 \<and> length (filter (\<lambda>x. phone_number x = P) (users s2)) = 1"
    for nm2 uuid2 now2
  proof -
    from get_or_create_user_found [OF found, of nm2 uuid2 now2]
    obtain u2 s2 where r: "get_or_create_user s' P nm2 uuid2 now2 = Inr (u2, s2)"
      and i: "User_id u2 = User_id u" and l: "length (users s2) = length (users s')"
      and p: "map phone_number (users s2) = map phone_number (users s')"
      by blast
    have "length (filter (\<lambda>x. phone_number x = P) (users s2)) = 1"
      using one by (simp only: count_phone_map p)
    with r i l show ?thesis by blast
  qed
  from created rows phone_u one again show ?thesis by blast
qed

theorem get_or_create_user_creates_once_witness:
  "py ''5521999990000'' \<notin> set (map phone_number (users db_one_user))
   \<and> 2 \<notin> set (map User_id (users db_one_user))
   \<and> (\<exists>u s'. get_or_create_user db_one_user (py ''5521999990000'') None 2 7 = Inr (u, s')
         \<and> users s' = users db_one_user @ [u] \<and> phone_number u = py ''5521999990000''
         \<and> length (filter (\<lambda>x. phone_number x = py ''5521999990000'') (users s')) = 1)"
proof -
  have unseen: "py ''5521999990000'' \<notin> set (map phone_number (users db_one_user))"
    by (simp add: db_one_user_def py_def)
  have fresh: "2 \<notin> set (map User_id (users db_one_user))"
    by (simp add: db_one_user_def)
  from get_or_create_user_creates_once [OF unseen fresh, of None 7] unseen fresh
  show ?thesis by blast
qed

section \<open>Reading and appending history\<close>

lemma desc_rev_sort_key:
  "sorted_wrt (\<lambda>a b. timestamp b \<le> timestamp a) (rev (sort_key timestamp rows))"
  using sorted_sort_key[of timestamp rows] by (simp only: sorted_wrt_rev sorted_map)

lemma orders_by_desc_newest_first: "orders_by_desc ties_newest_first"
  unfolding orders_by_desc_def ties_newest_first_def
  by (simp add: desc_rev_sort_key)

lemma orders_by_desc_oldest_first: "orders_by_desc ties_oldest_first"
  unfolding orders_by_desc_def ties_oldest_first_def
  by (simp add: desc_rev_sort_key)

lemma desc_take_drop:
  assumes "sorted_wrt (\<lambda>a b. timestamp b \<le> timestamp a) xs"
  shows "\<forall>a\<in>set (take n xs). \<forall>b\<in>set (drop n xs). timestamp b \<le> timestamp a"
proof -
  have "sorted_wrt (\<lambda>a b. timestamp b \<le> timestamp a) (take n xs @ drop n xs)"
    using assms by simp
  then show ?thesis unfolding sorted_wrt_append by blast
qed

lemma desc_take_rev_sorted:
  assumes "sorted_wrt (\<lambda>a b. timestamp b \<le> timestamp a) xs"
  shows "sorted (map timestamp (rev (take n xs)))"
proof -
  have "sorted_wrt (\<lambda>a b. timestamp b \<le> timestamp a) (take n xs)"
    using assms by (rule sorted_wrt_take)
  then have "sorted_wrt (\<lambda>a b. timestamp a \<le> timestamp b) (rev (take n xs))"
    by (simp only: sorted_wrt_rev)
  then show ?thesis by (simp only: sorted_map)
qed

text \<open>
  Claim C2. Whatever sort the database uses for \<open>ORDER BY timestamp DESC\<close>, for every
  user id \<open>U\<close> and every limit \<open>N\<close> that the database accepts (\<open>N\<close> not negative; a
  negative limit raises and returns nothing), \<open>get_chat_history\<close> returns at most \<open>N\<close>
  messages (as many as \<open>U\<close> has, up to \<open>N\<close>), all of them messages of \<open>U\<close>, in ascending
  order of timestamp; no message of \<open>U\<close> left out is newer than a returned one, and the
  result is the reversal of the first \<open>N\<close> rows in descending order.
\<close>

theorem get_chat_history_recent_ascending:
  assumes ob: "orders_by_desc order_by"
  shows "(N < 0 \<longrightarrow> get_chat_history order_by s U N = Inl ProgrammingError)
       \<and> (0 \<le> N \<longrightarrow> (\<exists>ms older. get_chat_history order_by s U N = Inr ms
             \<and> length ms = min (nat N) (length (filter (\<lambda>m. user_id m = U) (chat_history s)))
             \<and> length ms \<le> nat N
             \<and> (\<forall>m\<in>set ms. user_id m = U)
             \<and> sorted (map timestamp ms)
             \<and> mset ms + mset older = mset (filter (\<lambda>m. user_id m = U) (chat_history s))
             \<and> (\<forall>a\<in>set ms. \<forall>b\<in>set older. timestamp b \<le> timestamp a)
             \<and> ms = rev (take (nat N)
                      (order_by (filter (\<lambda>m. user_id m = U) (chat_history s))))))"
proof (intro conjI impI)
  assume "N < 0"
  then show "get_chat_history order_by s U N = Inl ProgrammingError"
    by (simp add: get_chat_history_def)
next
  assume nonneg: "0 \<le> N"
  define rows where "rows = filter (\<lambda>m. user_id m = U) (chat_history s)"
  define xs where "xs = order_by rows"
  define ms where "ms = rev (take (nat N) xs)"
  define older where "older = drop (nat N) xs"
  have perm: "mset xs = mset rows"
    and desc: "sorted_wrt (\<lambda>a b. timestamp b \<le> timestamp a) xs"
    using ob by (simp_all add: orders_by_desc_def xs_def)
  have result: "get_chat_history order_by s U N = Inr ms"
    using nonneg by (simp add: get_chat_history_def ms_def xs_def rows_def)
  have len_xs: "length xs = length rows"
    using perm by (rule mset_eq_length)
  have len: "length ms = min (nat N) (length rows)"
    by (simp add: ms_def len_xs min.commute)
  have split: "mset ms + mset older = mset rows"
    unfolding ms_def older_def perm [symmetric]
    by (simp add: union_code)
  have "set ms \<subseteq> set rows"
  proof -
    have "set ms \<subseteq> set xs" by (auto simp: ms_def dest: in_set_takeD)
    also have "set xs = set rows" using perm by (rule mset_eq_setD)
    finally show ?thesis .
  qed
  then have owner: "\<forall>m\<in>set ms. user_id m = U"
    by (auto simp: rows_def)
  have asc: "sorted (map timestamp ms)"
    unfolding ms_def using desc by (rule desc_take_rev_sorted)
  have recent: "\<forall>a\<in>set ms. \<forall>b\<in>set older. timestamp b \<le> timestamp a"
    using desc_take_drop [OF desc, of "nat N"] by (simp add: ms_def older_def)
  from result len owner asc split recent
  show "\<exists>ms older. get_chat_history order_by s U N = Inr ms
          \<and> length ms = min (nat N) (length (filter (\<lambda>m. user_id m = U) (chat_history s)))
          \<and> length ms \<le> nat N
          \<and> (\<forall>m\<in>set ms. user_id m = U)
          \<and> sorted (map timestamp ms)
          \<and> mset ms + mset older = mset (filter (\<lambda>m. user_id m = U) (chat_history s))
          \<and> (\<forall>a\<in>set ms. \<forall>b\<in>set older. timestamp b \<le> timestamp a)
          \<and> ms = rev (take (nat N) (order_by (filter (\<lambda>m. user_id m = U) (chat_history s))))"
    unfolding rows_def [symmetric]
    by (intro exI [of _ ms] exI [of _ older]) (simp add: ms_def xs_def)
qed

lemma get_chat_history_example:
  "get_chat_history ties_newest_first db_history 1 2 =
     Inr [\<lparr>ChatHistory_id = 11, user_id = 1, message = py ''Ola, Ana'',
            sender_type = AI, timestamp = 5\<rparr>,
          \<lparr>ChatHistory_id = 13, user_id = 1, message = py ''Tudo bem?'',
            sender_type = USER, timestamp = 9\<rparr>]"
  by (simp add: get_chat_history_def ties_newest_first_def db_history_def)

theorem get_chat_history_recent_ascending_witness:
  "orders_by_desc ties_newest_first \<and> (0::int) \<le> 2
   \<and> (\<exists>ms older. get_chat_history ties_newest_first db_history 1 2 = Inr ms
         \<and> length ms = 2
         \<and> (\<forall>m\<in>set ms. user_id m = 1)
         \<and> sorted (map timestamp ms)
         \<and> mset ms + mset older = mset (filter (\<lambda>m. user_id m = 1) (chat_history db_history))
         \<and> (\<forall>a\<in>set ms. \<forall>b\<in>set older. timestamp b \<le> timestamp a))"
proof -
  have n: "(0::int) \<le> 2" by simp
  have l: "min (nat 2) (length (filter (\<lambda>m. user_id m = 1) (chat_history db_history))) = 2"
    by (simp add: db_history_def)
  from get_chat_history_recent_ascending [OF orders_by_desc_newest_first, of 2 db_history 1] n
  obtain ms older where
    "get_chat_history ties_newest_first db_history 1 2 = Inr ms"
    "length ms = min (nat 2) (length (filter (\<lambda>m. user_id m = 1) (chat_history db_history)))"
    "\<forall>m\<in>set ms. user_id m = 1"
    "sorted (map timestamp ms)"
    "mset ms + mset older = mset (filter (\<lambda>m. user_id m = 1) (chat_history db_history))"
    "\<forall>a\<in>set ms. \<forall>b\<in>set older. timestamp b \<le> timestamp a"
    by blast
  with l orders_by_desc_newest_first n show ?thesis by auto
qed

lemma save_chat_message_appends:
  assumes "save_chat_message s U T S uuid4 now = Inr s'"
  shows "s' = s\<lparr>chat_history := chat_history s @
                 [\<lparr>ChatHistory_id = uuid4, user_id = U, message = T, sender_type = S,
                   timestamp = now\<rparr>]\<rparr>"
  using assms by (simp add: save_chat_message_def Let_def split: if_splits)

lemma desc_head_is_newest:
  assumes perm: "mset xs = mset (rows @ [e])"
      and desc: "sorted_wrt (\<lambda>a b. timestamp b \<le> timestamp a) xs"
      and newer: "\<forall>m\<in>set rows. timestamp m < timestamp e"
  shows "take 1 xs = [e]"
proof (cases xs)
  case Nil
  with perm show ?thesis by simp
next
  case (Cons x rest)
  have mem: "set xs = set rows \<union> {e}"
    using mset_eq_setD [OF perm] by simp
  have "x = e"
  proof (rule ccontr)
    assume "x \<noteq> e"
    with mem Cons have "x \<in> set rows" and "e \<in> set rest" by auto
    with newer desc Cons show False by fastforce
  qed
  with Cons show ?thesis by simp
qed

lemma save_chat_message_round_trip:
  assumes ob: "orders_by_desc order_by"
      and saved: "save_chat_message s U T S uuid4 now = Inr s'"
      and newer: "\<forall>m\<in>set (chat_history s). user_id m = U \<longrightarrow> timestamp m < now"
  shows "get_chat_history order_by s' U 1 =
           Inr [\<lparr>ChatHistory_id = uuid4, user_id = U, message = T, sender_type = S,
                  timestamp = now\<rparr>]"
proof -
  define e where "e = \<lparr>ChatHistory_id = uuid4, user_id = U, message = T, sender_type = S,
                        timestamp = now\<rparr>"
  define rows where "rows = filter (\<lambda>m. user_id m = U) (chat_history s)"
  have s': "chat_history s' = chat_history s @ [e]"
    using save_chat_message_appends [OF saved] by (simp add: e_def)
  have sel: "filter (\<lambda>m. user_id m = U) (chat_history s') = rows @ [e]"
    by (simp add: s' rows_def e_def)
  have perm: "mset (order_by (rows @ [e])) = mset (rows @ [e])"
    and desc: "sorted_wrt (\<lambda>a b. timestamp b \<le> timestamp a) (order_by (rows @ [e]))"
    using ob by (simp_all add: orders_by_desc_def)
  have "\<forall>m\<in>set rows. timestamp m < timestamp e"
    using newer by (simp add: rows_def e_def)
  from desc_head_is_newest [OF perm desc this]
  show ?thesis by (simp add: get_chat_history_def sel e_def)
qed

text \<open>
  Claim C3. The round trip holds when the appended message is strictly newer than every
  earlier message of the user (\<open>save_chat_message_round_trip\<close>). It fails when the new
  row gets the timestamp of an earlier one: a database that returns rows of equal
  timestamp in insertion order hands back the earlier message. Here user 1 has the
  message \<open>Oi\<close> at time 5, the reply is saved at the same server time, and the last
  message read back is \<open>Oi\<close>, sent by the user, not the reply.
\<close>

theorem save_chat_message_equal_timestamp:
  "orders_by_desc ties_oldest_first
   \<and> (\<exists>s'. save_chat_message db_one_user 1 (py ''Ola, Ana'') AI 11 5 = Inr s'
          \<and> get_chat_history ties_oldest_first s' 1 1 =
              Inr [\<lparr>ChatHistory_id = 10, user_id = 1, message = py ''Oi'',
                     sender_type = USER, timestamp = 5\<rparr>])"
  by (simp add: orders_by_desc_oldest_first save_chat_message_def get_chat_history_def
      ties_oldest_first_def db_one_user_def)

section \<open>The completion client never raises\<close>

lemma call_openrouter_handlers:
  "call_openrouter cfg post history =
     (case call_openrouter_try post (openrouter_payload cfg history) of
        Inl e \<Rightarrow> None | Inr r \<Rightarrow> r)"
  by (simp add: call_openrouter_def Let_def split: sum.splits exn.splits)

lemma call_openrouter_try_Some:
  assumes "call_openrouter_try post payload = Inr (Some reply)"
  shows "\<exists>r c cs. post payload = Inr r \<and> 200 \<le> status_code r \<and> status_code r < 300
           \<and> body r = Some (WellFormed (c # cs))
           \<and> reply = str_strip (content (choice_message c))"
  using assms
  by (auto simp: call_openrouter_try_def raise_for_status_def response_json_def
      model_validate_response_def
      split: sum.splits if_splits option.splits completion_json.splits list.splits)

lemma call_openrouter_try_choices:
  assumes "post payload = Inr r" and "200 \<le> status_code r" and "status_code r < 300"
      and "body r = Some (WellFormed cs)"
  shows "call_openrouter_try post payload =
           Inr (case cs of [] \<Rightarrow> None | c # x \<Rightarrow> Some (str_strip (content (choice_message c))))"
  using assms
  by (simp add: call_openrouter_try_def raise_for_status_def response_json_def
      model_validate_response_def split: list.splits)

text \<open>
  Claim C5. \<open>call_openrouter\<close> returns \<open>None\<close> whenever the \<open>try\<close> raises, in particular
  when the request itself fails or the status is not a success, and whenever the parsed
  response has an empty list of choices. No exception reaches the caller: the function
  always yields a value. It returns a text only when the request succeeded with a
  response that has at least one choice, and the text is the stripped content of the
  first.
\<close>

theorem call_openrouter_absent_or_first_choice:
  "(\<forall>e. call_openrouter_try post (openrouter_payload cfg history) = Inl e
        \<longrightarrow> call_openrouter cfg post history = None)
   \<and> (\<forall>e. post (openrouter_payload cfg history) = Inl e
        \<longrightarrow> call_openrouter cfg post history = None)
   \<and> (\<forall>r. post (openrouter_payload cfg history) = Inr r
            \<and> \<not> (200 \<le> status_code r \<and> status_code r < 300)
        \<longrightarrow> call_openrouter cfg post history = None)
   \<and> (\<forall>r. post (openrouter_payload cfg history) = Inr r \<and> body r = Some (WellFormed [])
        \<longrightarrow> call_openrouter cfg post history = None)
   \<and> (\<forall>reply. call_openrouter cfg post history = Some reply
        \<longrightarrow> (\<exists>r c cs. post (openrouter_payload cfg history) = Inr r
               \<and> 200 \<le> status_code r \<and> status_code r < 300
               \<and> body r = Some (WellFormed (c # cs))
               \<and> reply = str_strip (content (choice_message c))))"
proof (intro conjI allI impI)
  fix e assume "call_openrouter_try post (openrouter_payload cfg history) = Inl e"
  then show "call_openrouter cfg post history = None"
    by (simp add: call_openrouter_handlers)
next
  fix e assume "post (openrouter_payload cfg history) = Inl e"
  then show "call_openrouter cfg post history = None"
    by (simp add: call_openrouter_handlers call_openrouter_try_def)
next
  fix r assume "post (openrouter_payload cfg history) = Inr r
                 \<and> \<not> (200 \<le> status_code r \<and> status_code r < 300)"
  then show "call_openrouter cfg post history = None"
    by (auto simp: call_openrouter_handlers call_openrouter_try_def raise_for_status_def)
next
  fix r assume "post (openrouter_payload cfg history) = Inr r \<and> body r = Some (WellFormed [])"
  then show "call_openrouter cfg post history = None"
    by (simp add: call_openrouter_handlers call_openrouter_try_def raise_for_status_def
        response_json_def model_validate_response_def)
next
  fix reply assume "call_openrouter cfg post history = Some reply"
  then have "call_openrouter_try post (openrouter_payload cfg history) = Inr (Some reply)"
    by (simp add: call_openrouter_handlers split: sum.splits)
  then show "\<exists>r c cs. post (openrouter_payload cfg history) = Inr r
               \<and> 200 \<le> status_code r \<and> status_code r < 300
               \<and> body r = Some (WellFormed (c # cs))
               \<and> reply = str_strip (content (choice_message c))"
    by (rule call_openrouter_try_Some)
qed

theorem call_openrouter_absent_or_first_choice_witness:
  "call_openrouter default_settings openrouter_down [] = None
   \<and> call_openrouter default_settings openrouter_busy [] = None
   \<and> call_openrouter default_settings openrouter_no_choices [] = None
   \<and> call_openrouter default_settings (openrouter_replies (py '' Ola, Ana '')) []
       = Some (py ''Ola, Ana'')"
proof -
  have down: "call_openrouter default_settings openrouter_down [] = None"
    using call_openrouter_absent_or_first_choice [of openrouter_down default_settings "[]"]
    by (simp add: openrouter_down_def)
  have busy: "call_openrouter default_settings openrouter_busy [] = None"
    using call_openrouter_absent_or_first_choice [of openrouter_busy default_settings "[]"]
    by (simp add: openrouter_busy_def)
  have none: "call_openrouter default_settings openrouter_no_choices [] = None"
    using call_openrouter_absent_or_first_choice [of openrouter_no_choices default_settings "[]"]
    by (simp add: openrouter_no_choices_def)
  have reply: "call_openrouter default_settings (openrouter_replies (py '' Ola, Ana '')) []
                 = Some (py ''Ola, Ana'')"
    by (simp add: call_openrouter_handlers openrouter_replies_def
        call_openrouter_try_choices [where r = "\<lparr>status_code = 200,
          body = Some (WellFormed [\<lparr>choice_message = \<lparr>role = py ''assistant'',
                                                      content = py '' Ola, Ana ''\<rparr>\<rparr>])\<rparr>"]
        str_strip_def str_isspace_def py_def)
  from down busy none reply show ?thesis by simp
qed

section \<open>The fallback branch of the pipeline\<close>

lemma get_or_create_user_chat_history:
  assumes "get_or_create_user s ph nm uuid4 now = Inr (user, s1)"
  shows "chat_history s1 = chat_history s"
  using assms
  by (auto simp: get_or_create_user_def Let_def split: option.splits if_splits)

lemma fallback_apology_nonempty: "fallback_apology \<noteq> []"
  by (simp add: fallback_apology_def py_def)

lemma internal_error_text_nonempty: "internal_error_text \<noteq> []"
  by (simp add: internal_error_text_def py_def)

lemma str_strip_blank:
  assumes "\<forall>ch\<in>set t. str_isspace ch"
  shows "str_strip t = []"
proof -
  have "dropWhile str_isspace t = []" using assms by (simp add: dropWhile_eq_Nil_conv)
  then show ?thesis by (simp only: str_strip_def rev.simps dropWhile.simps)
qed

lemma process_try_no_reply:
  assumes user: "get_or_create_user s ph nm (user_uuid4 w) (user_now w) = Inr (user, s1)"
      and inbound: "save_chat_message s1 (User_id user) user_message USER
                      (inbound_uuid4 w) (inbound_now w) = Inr s2"
      and history: "get_chat_history (db_order_by w) s2 (User_id user)
                      (CONTEXT_MESSAGE_COUNT cfg) = Inr history_db"
      and absent: "call_openrouter cfg (openrouter_post w) (history_for_ai history_db) = None
                   \<or> call_openrouter cfg (openrouter_post w) (history_for_ai history_db) = Some []"
  shows "process_incoming_message cfg w s ph nm user_message =
           (s2, [\<lparr>zapi_phone = clean_phone (unicode_digit w) ph,
                   zapi_message = fallback_apology\<rparr>])"
  using absent
  by (auto simp: process_incoming_message_def process_try_def user inbound history
      send_zapi_message_posts fallback_apology_nonempty)

lemma inbound_only:
  assumes user: "get_or_create_user s ph nm uuid4 now = Inr (user, s1)"
      and inbound: "save_chat_message s1 uid user_message USER uuid4' now' = Inr s2"
  shows "chat_history s2 = chat_history s @
           [\<lparr>ChatHistory_id = uuid4', user_id = uid, message = user_message,
              sender_type = USER, timestamp = now'\<rparr>]
         \<and> filter (\<lambda>m. sender_type m = AI) (chat_history s2)
             = filter (\<lambda>m. sender_type m = AI) (chat_history s)"
  using save_chat_message_appends [OF inbound] get_or_create_user_chat_history [OF user]
  by simp

text \<open>
  Claim C6. In every run that reaches the completion call (the user is resolved, the
  inbound message is saved, the history is read) and gets no reply from it, the pipeline
  posts exactly one message to the gateway, the fixed apology, under the user's
  normalised phone; the only row the run adds to the history is the inbound message of
  the user, so no row of sender AI and no row for the apology is added.
\<close>

theorem process_incoming_message_no_reply:
  assumes user: "get_or_create_user s ph nm (user_uuid4 w) (user_now w) = Inr (user, s1)"
      and inbound: "save_chat_message s1 (User_id user) user_message USER
                      (inbound_uuid4 w) (inbound_now w) = Inr s2"
      and history: "get_chat_history (db_order_by w) s2 (User_id user)
                      (CONTEXT_MESSAGE_COUNT cfg) = Inr history_db"
      and absent: "call_openrouter cfg (openrouter_post w) (history_for_ai history_db) = None"
  shows "process_incoming_message cfg w s ph nm user_message =
           (s2, [\<lparr>zapi_phone = clean_phone (unicode_digit w) ph,
                   zapi_message = fallback_apology\<rparr>])
         \<and> chat_history s2 = chat_history s @
             [\<lparr>ChatHistory_id = inbound_uuid4 w, user_id = User_id user,
                message = user_message, sender_type = USER, timestamp = inbound_now w\<rparr>]
         \<and> filter (\<lambda>m. sender_type m = AI) (chat_history s2)
             = filter (\<lambda>m. sender_type m = AI) (chat_history s)"
  using process_try_no_reply [OF user inbound history] absent inbound_only [OF user inbound]
  by simp

text \<open>
  Claim C10. When the completion service answers with a first choice whose content is
  empty or consists of white space only, \<open>call_openrouter\<close> returns the empty string,
  which the pipeline treats as no reply: it posts the fixed apology, and the only row
  added to the history is the inbound message of the user.
\<close>

theorem process_incoming_message_blank_reply:
  assumes user: "get_or_create_user s ph nm (user_uuid4 w) (user_now w) = Inr (user, s1)"
      and inbound: "save_chat_message s1 (User_id user) user_message USER
                      (inbound_uuid4 w) (inbound_now w) = Inr s2"
      and history: "get_chat_history (db_order_by w) s2 (User_id user)
                      (CONTEXT_MESSAGE_COUNT cfg) = Inr history_db"
      and response: "openrouter_post w (openrouter_payload cfg (history_for_ai history_db)) = Inr r"
      and ok: "200 \<le> status_code r" "status_code r < 300"
      and first: "body r = Some (WellFormed (c # cs))"
      and blank: "\<forall>ch\<in>set (content (choice_message c)). str_isspace ch"
  shows "call_openrouter cfg (openrouter_post w) (history_for_ai history_db) = Some []
         \<and> process_incoming_message cfg w s ph nm user_message =
             (s2, [\<lparr>zapi_phone = clean_phone (unicode_digit w) ph,
                     zapi_message = fallback_apology\<rparr>])
         \<and> chat_history s2 = chat_history s @
             [\<lparr>ChatHistory_id = inbound_uuid4 w, user_id = User_id user,
                message = user_message, sender_type = USER, timestamp = inbound_now w\<rparr>]
         \<and> filter (\<lambda>m. sender_type m = AI) (chat_history s2)
             = filter (\<lambda>m. sender_type m = AI) (chat_history s)"
proof -
  have reply: "call_openrouter cfg (openrouter_post w) (history_for_ai history_db) = Some []"
    using call_openrouter_try_choices [of "openrouter_post w"
            "openrouter_payload cfg (history_for_ai history_db)" r "c # cs"] response ok first
    by (simp add: call_openrouter_handlers str_strip_blank [OF blank])
  with process_try_no_reply [OF user inbound history] inbound_only [OF user inbound]
  show ?thesis by simp
qed

lemma first_message_user:
  "get_or_create_user empty_db (py ''11987654321'') (Some (py ''Ana'')) 21 100
     = Inr (ana, \<lparr>users = [ana], chat_history = []\<rparr>)"
  by (simp add: get_or_create_user_def empty_db_def ana_def Let_def)

lemma first_message_inbound:
  "save_chat_message \<lparr>users = [ana], chat_history = []\<rparr> 21 (py ''Oi'') USER 22 100
     = Inr db_after_inbound"
  by (simp add: save_chat_message_def db_after_inbound_def oi_def ana_def)

lemma first_message_history:
  "get_chat_history ties_newest_first db_after_inbound 21 6 = Inr [oi]"
  by (simp add: get_chat_history_def ties_newest_first_def db_after_inbound_def oi_def)

theorem process_incoming_message_no_reply_witness:
  "process_incoming_message default_settings (demo_world\<lparr>openrouter_post := openrouter_down\<rparr>)
     empty_db (py ''11987654321'') (Some (py ''Ana'')) (py ''Oi'')
     = (db_after_inbound,
        [\<lparr>zapi_phone = py ''5511987654321'', zapi_message = fallback_apology\<rparr>])
   \<and> chat_history db_after_inbound = chat_history empty_db @ [oi]
   \<and> filter (\<lambda>m. sender_type m = AI) (chat_history db_after_inbound) = []"
proof -
  let ?w = "demo_world\<lparr>openrouter_post := openrouter_down\<rparr>"
  have user: "get_or_create_user empty_db (py ''11987654321'') (Some (py ''Ana''))
                (user_uuid4 ?w) (user_now ?w) = Inr (ana, \<lparr>users = [ana], chat_history = []\<rparr>)"
    by (simp add: demo_world_def first_message_user)
  have inbound: "save_chat_message \<lparr>users = [ana], chat_history = []\<rparr> (User_id ana) (py ''Oi'')
                   USER (inbound_uuid4 ?w) (inbound_now ?w) = Inr db_after_inbound"
    using first_message_inbound by (simp add: demo_world_def ana_def)
  have history: "get_chat_history (db_order_by ?w) db_after_inbound (User_id ana)
                   (CONTEXT_MESSAGE_COUNT default_settings) = Inr [oi]"
    using first_message_history by (simp add: demo_world_def ana_def default_settings_def)
  have absent: "call_openrouter default_settings (openrouter_post ?w) (history_for_ai [oi]) = None"
    by (simp add: call_openrouter_handlers call_openrouter_try_def openrouter_down_def)
  from process_incoming_message_no_reply [OF user inbound history absent]
  show ?thesis
    by (simp add: demo_world_def clean_phone_11_digits empty_db_def db_after_inbound_def oi_def)
qed

theorem process_incoming_message_blank_reply_witness:
  "process_incoming_message default_settings
     (demo_world\<lparr>openrouter_post := openrouter_replies (py ''  '')\<rparr>)
     empty_db (py ''11987654321'') (Some (py ''Ana'')) (py ''Oi'')
     = (db_after_inbound,
        [\<lparr>zapi_phone = py ''5511987654321'', zapi_message = fallback_apology\<rparr>])
   \<and> call_openrouter default_settings (openrouter_replies (py ''  '')) (history_for_ai [oi])
       = Some []
   \<and> filter (\<lambda>m. sender_type m = AI) (chat_history db_after_inbound) = []"
proof -
  let ?w = "demo_world\<lparr>openrouter_post := openrouter_replies (py ''  '')\<rparr>"
  let ?c = "\<lparr>choice_message = \<lparr>role = py ''assistant'', content = py ''  ''\<rparr>\<rparr>"
  let ?r = "\<lparr>status_code = 200, body = Some (WellFormed [?c])\<rparr>"
  have user: "get_or_create_user empty_db (py ''11987654321'') (Some (py ''Ana''))
                (user_uuid4 ?w) (user_now ?w) = Inr (ana, \<lparr>users = [ana], chat_history = []\<rparr>)"
    by (simp add: demo_world_def first_message_user)
  have inbound: "save_chat_message \<lparr>users = [ana], chat_history = []\<rparr> (User_id ana) (py ''Oi'')
                   USER (inbound_uuid4 ?w) (inbound_now ?w) = Inr db_after_inbound"
    using first_message_inbound by (simp add: demo_world_def ana_def)
  have history: "get_chat_history (db_order_by ?w) db_after_inbound (User_id ana)
                   (CONTEXT_MESSAGE_COUNT default_settings) = Inr [oi]"
    using first_message_history by (simp add: demo_world_def ana_def default_settings_def)
  have response: "openrouter_post ?w (openrouter_payload default_settings (history_for_ai [oi]))
                    = Inr ?r"
    by (simp add: openrouter_replies_def)
  have ok: "200 \<le> status_code ?r" "status_code ?r < 300" by simp_all
  have first: "body ?r = Some (WellFormed (?c # []))" by simp
  have blank: "\<forall>ch\<in>set (content (choice_message ?c)). str_isspace ch"
    by (simp add: py_def str_isspace_def)
  from process_incoming_message_blank_reply [OF user inbound history response ok first blank]
  show ?thesis
    by (simp add: demo_world_def clean_phone_11_digits empty_db_def db_after_inbound_def oi_def)
qed

section \<open>The pipeline, the HTTP client and the transaction\<close>

lemma call_openrouter_client_None:
  "call_openrouter_client None cfg post history = Inr (call_openrouter cfg post history)"
  by (simp add: call_openrouter_client_def)

lemma send_zapi_message_client_None:
  "send_zapi_message_client None ucd post ph msg = Inr (send_zapi_message ucd post ph msg)"
  by (simp add: send_zapi_message_client_def send_zapi_message_def)

lemma send_zapi_message_client_Some:
  "send_zapi_message_client (Some e) ucd post ph msg = (if msg = [] then Inr [] else Inl e)"
  by (simp add: send_zapi_message_client_def)

lemma process_try_client_None:
  "process_try cfg w s ph nm user_message =
     (case process_try_client None cfg w s ph nm user_message of
        (r, tx, s', sent) \<Rightarrow> (r, s', sent))"
  by (simp add: process_try_def process_try_client_def call_openrouter_client_None
      send_zapi_message_client_None split: sum.splits option.splits prod.splits)

lemma process_incoming_message_client_None:
  "process_incoming_message cfg w s ph nm user_message =
     (case process_incoming_message_client None cfg w s ph nm user_message of
        (tx, s', sent) \<Rightarrow> (s', sent))"
  by (simp add: process_incoming_message_def process_incoming_message_client_def
      process_try_client_None send_zapi_message_client_None
      split: sum.splits option.splits prod.splits)

lemma process_try_client_returns_active:
  assumes "process_try_client client cfg w s ph nm user_message = (None, tx, s', sent)"
  shows "tx = Active"
  using assms
  by (auto simp: process_try_client_def split: sum.splits option.splits prod.splits if_splits)

section \<open>The webhook and the session of a request\<close>

lemma handle_group:
  assumes "isGroupMessage webhook_data = Some True"
  shows "handle_zapi_webhook (Accepted webhook_data) =
           Inr (\<lparr>http_status = 200, status_field = py ''ignored_group_message''\<rparr>, None)"
  using assms by (simp add: handle_zapi_webhook_def)

text \<open>
  Claim C9. For every payload that validates and is flagged as a group message, the
  handler answers 200 with status \<open>ignored_group_message\<close> and adds no background task;
  the whole request leaves the database as it was: no user and no message is created.
\<close>

theorem group_message_ignored:
  assumes "isGroupMessage webhook_data = Some True"
  shows "handle_zapi_webhook (Accepted webhook_data) =
           Inr (\<lparr>http_status = 200, status_field = py ''ignored_group_message''\<rparr>, None)
         \<and> webhook_request client cfg w (Accepted webhook_data) db =
             (Committed, db,
              (Some \<lparr>http_status = 200, status_field = py ''ignored_group_message''\<rparr>, []))"
  by (simp add: handle_group [OF assms] webhook_request_def get_db_def)

theorem group_message_ignored_witness:
  "isGroupMessage group_payload = Some True
   \<and> webhook_request None default_settings demo_world (Accepted group_payload) db_one_user =
       (Committed, db_one_user,
        (Some \<lparr>http_status = 200, status_field = py ''ignored_group_message''\<rparr>, []))"
proof -
  have g: "isGroupMessage group_payload = Some True" by (simp add: group_payload_def)
  from group_message_ignored [OF g, of None default_settings demo_world db_one_user] g
  show ?thesis by simp
qed

lemma handle_direct:
  "handle_zapi_webhook (Accepted (direct_payload ph)) =
     Inr (\<lparr>http_status = 200, status_field = py ''received''\<rparr>,
          Some (ph, Some (py ''Ana''), py ''Oi''))"
  by (simp add: handle_zapi_webhook_def direct_payload_def str_strip_def str_isspace_def py_def)

lemma handle_task_phone:
  assumes "handle_zapi_webhook (Accepted webhook_data) = Inr (answer, Some (ph, nm, t))"
  shows "ph = phone webhook_data"
  using assms
  by (auto simp: handle_zapi_webhook_def Let_def split: if_splits option.splits)

lemma get_or_create_user_phone:
  assumes "get_or_create_user s ph nm uuid4 now = Inr (u, s')"
  shows "phone_number u = ph
         \<and> set (map phone_number (users s')) \<subseteq> insert ph (set (map phone_number (users s)))"
  using assms
  by (auto simp: get_or_create_user_def Let_def find_Some_iff
      split: option.splits if_splits)

lemma save_chat_message_users:
  assumes "save_chat_message s uid msg sender uuid4 now = Inr s'"
  shows "users s' = users s"
  using save_chat_message_appends [OF assms] by simp

lemma process_try_client_phones:
  assumes "process_try_client client cfg w s ph nm user_message = (r, tx, s', sent)"
  shows "set (map phone_number (users s')) \<subseteq> insert ph (set (map phone_number (users s)))"
  using assms
  by (auto simp: process_try_client_def
      split: sum.splits option.splits if_splits prod.splits
      dest!: get_or_create_user_phone save_chat_message_users) blast+

lemma process_incoming_message_client_phones:
  assumes "process_incoming_message_client client cfg w s ph nm user_message = (tx, s', sent)"
  shows "set (map phone_number (users s')) \<subseteq> insert ph (set (map phone_number (users s)))"
proof -
  obtain r tx0 s0 sent0
    where t: "process_try_client client cfg w s ph nm user_message = (r, tx0, s0, sent0)"
    by (cases "process_try_client client cfg w s ph nm user_message") auto
  with assms have "s' = s0"
    by (auto simp: process_incoming_message_client_def split: option.splits sum.splits)
  with process_try_client_phones [OF t] show ?thesis by simp
qed

lemma get_db_database:
  assumes "get_db use db = (exit, db', out)"
  shows "db' = db \<or> (\<exists>r tx out'. use db = (r, tx, db', out'))"
  using assms
  by (auto simp: get_db_def split: prod.splits option.splits transaction.splits)

text \<open>
  Claim C8. The claim does not hold: the stored phone number is not normalised. What
  holds instead: the user that \<open>get_or_create_user\<close> creates or resolves carries exactly the
  phone string it was called with, and a webhook request adds no phone number to \<open>users\<close>
  other than the \<open>phone\<close> field of the payload, unchanged. The normalised form exists only
  in the request that \<open>send_zapi_message\<close> posts.
\<close>

theorem stored_phone_is_webhook_phone:
  "(\<forall>u s'. get_or_create_user s ph nm uuid4 now = Inr (u, s')
        \<longrightarrow> phone_number u = ph
            \<and> set (map phone_number (users s')) \<subseteq> insert ph (set (map phone_number (users s))))
   \<and> (\<forall>exit db' out. webhook_request client cfg w (Accepted webhook_data) db = (exit, db', out)
        \<longrightarrow> set (map phone_number (users db'))
              \<subseteq> insert (phone webhook_data) (set (map phone_number (users db))))"
proof (intro conjI allI impI)
  fix u s' assume "get_or_create_user s ph nm uuid4 now = Inr (u, s')"
  from get_or_create_user_phone [OF this]
  show "phone_number u = ph"
    and "set (map phone_number (users s')) \<subseteq> insert ph (set (map phone_number (users s)))"
    by simp_all
next
  fix exit db' out
  assume run: "webhook_request client cfg w (Accepted webhook_data) db = (exit, db', out)"
  obtain answer task where h: "handle_zapi_webhook (Accepted webhook_data) = Inr (answer, task)"
    by (cases "handle_zapi_webhook (Accepted webhook_data)")
      (auto simp: handle_zapi_webhook_def Let_def split: if_splits option.splits)
  show "set (map phone_number (users db'))
          \<subseteq> insert (phone webhook_data) (set (map phone_number (users db)))"
  proof (cases task)
    case None
    with run h have "db' = db" by (auto simp: webhook_request_def get_db_def)
    then show ?thesis by auto
  next
    case (Some t)
    obtain p n m where t: "t = (p, n, m)" by (cases t) auto
    have p: "p = phone webhook_data"
      using h Some t by (auto dest: handle_task_phone)
    obtain tx s1 sent
      where r: "process_incoming_message_client client cfg w db p n m = (tx, s1, sent)"
      by (cases "process_incoming_message_client client cfg w db p n m") auto
    from run h Some t r have "db' = db \<or> db' = s1"
      by (auto simp: webhook_request_def dest!: get_db_database)
    with process_incoming_message_client_phones [OF r] p show ?thesis by auto
  qed
qed

theorem stored_phone_is_webhook_phone_witness:
  "\<exists>u s'. get_or_create_user empty_db (py ''(11) 98765-4321'') None 21 100 = Inr (u, s')
     \<and> phone_number u = py ''(11) 98765-4321''
     \<and> map phone_number (users s') = [py ''(11) 98765-4321'']"
proof -
  let ?u = "\<lparr>User_id = 21, phone_number = py ''(11) 98765-4321'', name = None,
              created_at = 100, updated_at = 100\<rparr>"
  have r: "get_or_create_user empty_db (py ''(11) 98765-4321'') None 21 100
             = Inr (?u, \<lparr>users = [?u], chat_history = []\<rparr>)"
    by (simp add: get_or_create_user_def empty_db_def Let_def)
  from stored_phone_is_webhook_phone [of empty_db "py ''(11) 98765-4321''" None 21 100] r
  show ?thesis by simp
qed

lemma direct_run_user:
  "get_or_create_user empty_db ph (Some (py ''Ana'')) 21 100
     = Inr (ana\<lparr>phone_number := ph\<rparr>, \<lparr>users = [ana\<lparr>phone_number := ph\<rparr>], chat_history = []\<rparr>)"
  by (simp add: get_or_create_user_def empty_db_def ana_def Let_def)

lemma direct_run_inbound:
  "save_chat_message \<lparr>users = [ana\<lparr>phone_number := ph\<rparr>], chat_history = []\<rparr> 21 (py ''Oi'')
     USER 22 100 = Inr \<lparr>users = [ana\<lparr>phone_number := ph\<rparr>], chat_history = [oi]\<rparr>"
  by (simp add: save_chat_message_def oi_def ana_def)

lemma direct_run_history:
  "get_chat_history ties_newest_first \<lparr>users = us, chat_history = [oi]\<rparr> 21 6 = Inr [oi]"
  by (simp add: get_chat_history_def ties_newest_first_def oi_def)

lemma direct_run_negative_limit:
  "get_chat_history ties_newest_first s 21 (- 1) = Inl ProgrammingError"
  by (simp add: get_chat_history_def)

lemma direct_run_reply:
  "call_openrouter default_settings (openrouter_replies (py ''Ola, Ana'')) history
     = Some (py ''Ola, Ana'')"
  by (simp add: call_openrouter_handlers openrouter_replies_def call_openrouter_try_def
      raise_for_status_def response_json_def model_validate_response_def
      str_strip_def str_isspace_def py_def)

lemma direct_run_reply_saved:
  "save_chat_message \<lparr>users = [ana\<lparr>phone_number := ph\<rparr>], chat_history = [oi]\<rparr> 21
     (py ''Ola, Ana'') AI 23 100
     = Inr \<lparr>users = [ana\<lparr>phone_number := ph\<rparr>],
            chat_history = [oi, \<lparr>ChatHistory_id = 23, user_id = 21, message = py ''Ola, Ana'',
                                 sender_type = AI, timestamp = 100\<rparr>]\<rparr>"
  by (simp add: save_chat_message_def oi_def ana_def)

lemma reply_nonempty: "py ''Ola, Ana'' \<noteq> []"
  by (simp add: py_def)

lemma demo_world_fields:
  "unicode_digit demo_world = (\<lambda>c. False)" "db_order_by demo_world = ties_newest_first"
  "openrouter_post demo_world = openrouter_replies (py ''Ola, Ana'')"
  "user_uuid4 demo_world = 21" "user_now demo_world = 100"
  "inbound_uuid4 demo_world = 22" "inbound_now demo_world = 100"
  "reply_uuid4 demo_world = 23" "reply_now demo_world = 100"
  by (simp_all add: demo_world_def)

lemma default_limit: "CONTEXT_MESSAGE_COUNT default_settings = 6"
  by (simp add: default_settings_def)

lemma direct_run:
  "process_incoming_message default_settings demo_world empty_db ph (Some (py ''Ana'')) (py ''Oi'')
     = (\<lparr>users = [ana\<lparr>phone_number := ph\<rparr>],
         chat_history = [oi, \<lparr>ChatHistory_id = 23, user_id = 21, message = py ''Ola, Ana'',
                              sender_type = AI, timestamp = 100\<rparr>]\<rparr>,
        [\<lparr>zapi_phone = clean_phone (\<lambda>c. False) ph, zapi_message = py ''Ola, Ana''\<rparr>])"
proof -
  have u: "User_id (ana\<lparr>phone_number := ph\<rparr>) = 21" by (simp add: ana_def)
  show ?thesis
    by (simp add: process_incoming_message_def process_try_def demo_world_fields
        default_limit direct_run_user u direct_run_inbound
        direct_run_history direct_run_reply reply_nonempty
        direct_run_reply_saved send_zapi_message_posts)
qed

lemma direct_run_client:
  "process_incoming_message_client None default_settings demo_world empty_db ph
     (Some (py ''Ana'')) (py ''Oi'')
     = (Active,
        \<lparr>users = [ana\<lparr>phone_number := ph\<rparr>],
         chat_history = [oi, \<lparr>ChatHistory_id = 23, user_id = 21, message = py ''Ola, Ana'',
                              sender_type = AI, timestamp = 100\<rparr>]\<rparr>,
        [\<lparr>zapi_phone = clean_phone (\<lambda>c. False) ph, zapi_message = py ''Ola, Ana''\<rparr>])"
proof -
  have u: "User_id (ana\<lparr>phone_number := ph\<rparr>) = 21" by (simp add: ana_def)
  show ?thesis
    by (simp add: process_incoming_message_client_def process_try_client_def demo_world_fields
        default_limit direct_run_user u direct_run_inbound direct_run_history
        call_openrouter_client_None send_zapi_message_client_None direct_run_reply
        reply_nonempty direct_run_reply_saved send_zapi_message_posts)
qed

text \<open>
  The request with phone \<open>(11) 98765-4321\<close> on an empty database: the user is stored under
  \<open>(11) 98765-4321\<close>, while the reply is relayed to \<open>5511987654321\<close>.
\<close>

theorem stored_phone_not_normalized:
  "webhook_request None default_settings demo_world
     (Accepted (direct_payload (py ''(11) 98765-4321''))) empty_db
     = (Committed,
        \<lparr>users = [ana\<lparr>phone_number := py ''(11) 98765-4321''\<rparr>],
         chat_history = [oi, \<lparr>ChatHistory_id = 23, user_id = 21, message = py ''Ola, Ana'',
                              sender_type = AI, timestamp = 100\<rparr>]\<rparr>,
        (Some \<lparr>http_status = 200, status_field = py ''received''\<rparr>,
         [\<lparr>zapi_phone = py ''5511987654321'', zapi_message = py ''Ola, Ana''\<rparr>]))
   \<and> clean_phone (unicode_digit demo_world) (py ''(11) 98765-4321'') \<noteq> py ''(11) 98765-4321''"
proof -
  have c: "clean_phone (\<lambda>c. False) (py ''(11) 98765-4321'') = py ''5511987654321''"
    by (rule clean_phone_punctuated)
  have d: "py ''5511987654321'' \<noteq> py ''(11) 98765-4321''" by (simp add: py_def)
  show ?thesis
    by (simp add: webhook_request_def get_db_def handle_direct direct_run_client c d
        demo_world_fields)
qed

lemma webhook_request_not_json:
  "webhook_request client cfg w NotJSON db =
     (RolledBack (HTTPException 400 (py ''Payload inv'' @ [225] @ py ''lido.'')), db, (None, []))"
  by (simp add: webhook_request_def get_db_def handle_zapi_webhook_def)

lemma process_incoming_message_client_raised:
  assumes "process_try_client client cfg w s ph nm user_message = (Some e, tx, s', sent)"
  shows "\<exists>sent'. process_incoming_message_client client cfg w s ph nm user_message
                    = (tx, s', sent')"
  using assms by (simp add: process_incoming_message_client_def split: sum.splits)

lemma database_failure_persists_nothing:
  assumes task: "handle_zapi_webhook request = Inr (answer, Some (ph, nm, user_message))"
      and raised: "process_try_client client cfg w db ph nm user_message = (Some e, tx, s', sent)"
      and database: "tx \<noteq> Active"
      and run: "webhook_request client cfg w request db = (exit, db', out)"
  shows "db' = db"
proof -
  from process_incoming_message_client_raised [OF raised]
  obtain sent' where "process_incoming_message_client client cfg w db ph nm user_message
                        = (tx, s', sent')" by blast
  with task database run show ?thesis
    by (cases tx) (auto simp: webhook_request_def get_db_def)
qed

lemma other_failure_is_committed:
  assumes task: "handle_zapi_webhook request = Inr (answer, Some (ph, nm, user_message))"
      and raised: "process_try_client client cfg w db ph nm user_message
                     = (Some e, Active, s', sent)"
  shows "\<exists>sent'. webhook_request client cfg w request db
                    = (Committed, s', (Some answer, sent'))"
proof -
  from process_incoming_message_client_raised [OF raised]
  obtain sent' where "process_incoming_message_client client cfg w db ph nm user_message
                        = (Active, s', sent')" by blast
  with task show ?thesis
    by (auto simp: webhook_request_def get_db_def)
qed

lemma negative_limit_run:
  "webhook_request None (default_settings\<lparr>CONTEXT_MESSAGE_COUNT := - 1\<rparr>) demo_world
     (Accepted (direct_payload (py ''11987654321''))) empty_db
     = (Committed, empty_db,
        (Some \<lparr>http_status = 200, status_field = py ''received''\<rparr>,
         [\<lparr>zapi_phone = py ''5511987654321'', zapi_message = internal_error_text\<rparr>]))"
proof -
  have u: "User_id ana = 21" by (simp add: ana_def)
  have t: "process_try_client None (default_settings\<lparr>CONTEXT_MESSAGE_COUNT := - 1\<rparr>) demo_world
             empty_db (py ''11987654321'') (Some (py ''Ana'')) (py ''Oi'')
           = (Some ProgrammingError, Aborted, db_after_inbound, [])"
    using direct_run_user [of "py ''11987654321''"] direct_run_inbound [of "py ''11987654321''"]
    by (simp add: process_try_client_def demo_world_fields u direct_run_negative_limit
        db_after_inbound_def ana_def)
  show ?thesis
    by (simp add: webhook_request_def get_db_def handle_direct
        process_incoming_message_client_def t send_zapi_message_client_None
        send_zapi_message_posts internal_error_text_nonempty clean_phone_11_digits
        demo_world_fields)
qed

lemma key_collision_run:
  "webhook_request None default_settings (demo_world\<lparr>inbound_uuid4 := 10\<rparr>)
     (Accepted (direct_payload (py ''11987654321''))) db_one_user
     = (RolledBack PendingRollbackError, db_one_user,
        (Some \<lparr>http_status = 200, status_field = py ''received''\<rparr>,
         [\<lparr>zapi_phone = py ''5511987654321'', zapi_message = internal_error_text\<rparr>]))"
proof -
  let ?w = "demo_world\<lparr>inbound_uuid4 := 10\<rparr>"
  have "\<exists>s1. process_try_client None default_settings ?w db_one_user (py ''11987654321'')
               (Some (py ''Ana'')) (py ''Oi'')
             = (Some IntegrityError, Inactive, s1, [])"
    by (simp add: process_try_client_def demo_world_def db_one_user_def
        get_or_create_user_def save_chat_message_def py_def Let_def)
  then obtain s1 where t: "process_try_client None default_settings ?w db_one_user
                             (py ''11987654321'') (Some (py ''Ana'')) (py ''Oi'')
                           = (Some IntegrityError, Inactive, s1, [])" by blast
  have f: "unicode_digit ?w = (\<lambda>c. False)" by (simp add: demo_world_def)
  show ?thesis
    by (simp add: webhook_request_def get_db_def handle_direct
        process_incoming_message_client_def t send_zapi_message_client_None
        send_zapi_message_posts internal_error_text_nonempty clean_phone_11_digits f)
qed

lemma client_failure_run:
  "process_try_client (Some ValueError) default_settings demo_world empty_db
     (py ''11987654321'') (Some (py ''Ana'')) (py ''Oi'')
     = (Some ValueError, Active, db_after_inbound, [])"
proof -
  have u: "User_id ana = 21" by (simp add: ana_def)
  show ?thesis
    using direct_run_user [of "py ''11987654321''"] direct_run_inbound [of "py ''11987654321''"]
      direct_run_history [of "[ana]"]
    by (simp add: process_try_client_def demo_world_fields default_limit u
        db_after_inbound_def ana_def call_openrouter_client_def)
qed

text \<open>
  Claim C7. An exception of a database call leaves nothing behind: after a failed flush the
  commit raises and \<open>get_db\<close> rolls back (\<open>key_collision_run\<close>), and after a failed statement
  the server has aborted the transaction (\<open>negative_limit_run\<close>); this is
  \<open>database_failure_persists_nothing\<close>. An exception that does not come from the
  database is another matter: the \<open>except Exception\<close> of \<open>process_incoming_message\<close> swallows
  it and returns, so \<open>get_db\<close> never sees it and commits what the run wrote before it
  failed (\<open>other_failure_is_committed\<close>). Here the process cannot construct its HTTP
  client: the user and her message are written, \<open>call_openrouter\<close> raises, the outer
  handler swallows that, the send of the error text raises too and the inner handler
  swallows it. The request ends with a commit, the two rows persist, and nothing is sent
  to the user.
\<close>

theorem swallowed_failure_is_committed:
  "process_try_client (Some ValueError) default_settings demo_world empty_db
     (py ''11987654321'') (Some (py ''Ana'')) (py ''Oi'')
     = (Some ValueError, Active, db_after_inbound, [])
   \<and> webhook_request (Some ValueError) default_settings demo_world
       (Accepted (direct_payload (py ''11987654321''))) empty_db
     = (Committed, db_after_inbound,
        (Some \<lparr>http_status = 200, status_field = py ''received''\<rparr>, []))
   \<and> db_after_inbound \<noteq> empty_db"
proof -
  have differ: "db_after_inbound \<noteq> empty_db"
    by (simp add: db_after_inbound_def empty_db_def)
  show ?thesis
    by (simp add: client_failure_run differ webhook_request_def get_db_def handle_direct
        process_incoming_message_client_def send_zapi_message_client_Some
        internal_error_text_nonempty)
qed

end
